theory Spec2Isabelle
  imports Complex_Main
begin

section \<open>Python values used by the client\<close>

text \<open>
  The development embeds \<^verbatim>\<open>backend/igdb_client.py\<close> (class \<^verbatim>\<open>IGDBClient\<close>) and the
  entity conversion loop of \<^verbatim>\<open>backend/server.py\<close>.

  Conventions of the embedding:
  \<^item> Python \<^verbatim>\<open>int\<close> is \<open>int\<close>; \<^verbatim>\<open>str\<close> is \<open>string\<close>.
  \<^item> Points in time (\<^verbatim>\<open>time.time()\<close>, \<^verbatim>\<open>datetime.now()\<close>) are seconds since the
    epoch as exact \<open>real\<close> numbers: floating-point rounding and the microsecond
    resolution of \<^verbatim>\<open>datetime\<close> are not modelled, and the local time zone is taken
    to have a constant offset, so that \<^verbatim>\<open>datetime.timestamp()\<close> is the identity.
  \<^item> Every \<^verbatim>\<open>raise\<close> is a value \<open>Inl e\<close> of a sum type.
  \<^item> Calls of \<^verbatim>\<open>logger\<close> have no effect on any result and are left out.
\<close>

datatype error =
    IGDBAuthError string
  | IGDBRateLimitError string
  | HTTPStatusError int string
  | RequestError string
  | JSONDecodeError
  | KeyError string
  | OverflowError
  | ZeroDivisionError

text \<open>
  \<open>HTTPStatusError status text\<close> and \<open>RequestError text\<close> are the two kinds of
  \<^verbatim>\<open>httpx.HTTPError\<close>: the first is what \<^verbatim>\<open>response.raise_for_status()\<close> raises, and
  keeps the response's status code; the second is what \<^verbatim>\<open>AsyncClient.post\<close> raises when
  no response arrives (timeout, connection failure). \<open>text\<close> is \<^verbatim>\<open>str(e)\<close>.
\<close>

fun is_httpx_HTTPError :: "error \<Rightarrow> bool" where
  "is_httpx_HTTPError (HTTPStatusError status text) = True"
| "is_httpx_HTTPError (RequestError text) = True"
| "is_httpx_HTTPError e = False"

fun str_exc :: "error \<Rightarrow> string" where
  "str_exc (IGDBAuthError text) = text"
| "str_exc (IGDBRateLimitError text) = text"
| "str_exc (HTTPStatusError status text) = text"
| "str_exc (RequestError text) = text"
| "str_exc e = []"

subsection \<open>\<^verbatim>\<open>str(int)\<close>, \<^verbatim>\<open>int(float)\<close>, \<^verbatim>\<open>str.join\<close>\<close>

definition digit_char :: "nat \<Rightarrow> char" where
  "digit_char d = ''0123456789'' ! d"

fun str_nat :: "nat \<Rightarrow> string" where
  "str_nat n = (if n < 10 then [digit_char n] else str_nat (n div 10) @ [digit_char (n mod 10)])"

declare str_nat.simps [simp del]

definition str_int :: "int \<Rightarrow> string" where
  "str_int i = (if i < 0 then CHR ''-'' # str_nat (nat (- i)) else str_nat (nat i))"

text \<open>\<^verbatim>\<open>int(x)\<close> of a float truncates towards zero.\<close>

definition py_int :: "real \<Rightarrow> int" where
  "py_int r = (if 0 \<le> r then \<lfloor>r\<rfloor> else \<lceil>r\<rceil>)"

fun join :: "string \<Rightarrow> string list \<Rightarrow> string" where
  "join sep [] = []"
| "join sep [x] = x"
| "join sep (x # y # ys) = x @ sep @ join sep (y # ys)"

subsection \<open>\<^verbatim>\<open>datetime\<close> and \<^verbatim>\<open>timedelta\<close>\<close>

text \<open>
  \<^verbatim>\<open>timedelta\<close> holds at most 999999999 days in either direction and \<^verbatim>\<open>datetime\<close>
  covers the years 1 to 9999; outside, the constructors and \<^verbatim>\<open>+\<close> raise
  \<^verbatim>\<open>OverflowError\<close>. Durations are seconds.
\<close>

definition timedelta_seconds :: "int \<Rightarrow> error + real" where
  "timedelta_seconds n =
     (if - 999999999 \<le> n div 86400 \<and> n div 86400 \<le> 999999999
      then Inr (of_int n) else Inl OverflowError)"

definition timedelta_days :: "int \<Rightarrow> error + real" where
  "timedelta_days d =
     (if - 999999999 \<le> d \<and> d \<le> 999999999
      then Inr (of_int (d * 86400)) else Inl OverflowError)"

definition datetime_min :: real where
  "datetime_min = - 62135596800"

definition datetime_end :: real where
  "datetime_end = 253402300800"

definition datetime_add :: "real \<Rightarrow> real \<Rightarrow> error + real" where
  "datetime_add t delta =
     (if datetime_min \<le> t + delta \<and> t + delta < datetime_end
      then Inr (t + delta) else Inl OverflowError)"

section \<open>Query construction\<close>

text \<open>
  The queries are built by string formatting. \<open>dq\<close> is the double-quote character of
  the \<^verbatim>\<open>search "..."\<close> literal.
\<close>

definition dq :: char where
  "dq = CHR 0x22"

definition upcoming_fields :: string where
  "upcoming_fields = ''fields name,summary,rating,first_release_date,cover.url,release_dates.date,release_dates.human,release_dates.platform.name,release_dates.platform.abbreviation,platforms.name,platforms.abbreviation''"

text \<open>
  Lines 122 to 137 of \<^verbatim>\<open>get_upcoming_games\<close>: \<^verbatim>\<open>query_parts\<close> starts with the field list
  and the \<^verbatim>\<open>where\<close> clause of the date window; \<^verbatim>\<open>if platform_ids:\<close> (neither \<^verbatim>\<open>None\<close>
  nor empty) appends the platform restriction as a further element; the sort and limit
  clauses follow; the elements are joined with \<^verbatim>\<open>"; "\<close> and closed with \<^verbatim>\<open>";"\<close>.
\<close>

definition upcoming_query :: "int \<Rightarrow> int \<Rightarrow> int \<Rightarrow> int list option \<Rightarrow> string" where
  "upcoming_query start_timestamp end_timestamp limit platform_ids =
     (let query_parts =
            [upcoming_fields,
             ''where release_dates.date >= '' @ str_int start_timestamp
               @ '' & release_dates.date < '' @ str_int end_timestamp];
          query_parts' =
            (case platform_ids of
               None \<Rightarrow> query_parts
             | Some [] \<Rightarrow> query_parts
             | Some (pid # pids) \<Rightarrow>
                 (let platform_filter = join '' | '' (map str_int (pid # pids))
                  in query_parts @ [''& release_dates.platform = ('' @ platform_filter @ '')'']));
          query_parts'' =
            query_parts' @ [''sort release_dates.date asc'', ''limit '' @ str_int limit]
      in join ''; '' query_parts'' @ '';'')"

text \<open>Line 152 of \<^verbatim>\<open>search_games\<close>: one f-string around the search term.\<close>

definition search_query :: "string \<Rightarrow> int \<Rightarrow> string" where
  "search_query search_term limit =
     ''search '' @ [dq] @ search_term @ [dq]
       @ ''; fields name,summary,rating,first_release_date,cover.url,platforms.name; limit ''
       @ str_int limit @ '';''"

text \<open>Line 163 of \<^verbatim>\<open>get_platforms\<close>: a constant.\<close>

definition platforms_query :: string where
  "platforms_query = ''fields name,abbreviation; where category = (1,5,6); sort name asc; limit 500;''"

subsection \<open>Reading a query as the upstream grammar does\<close>

text \<open>
  The query grammar is a sequence of statements, each closed by a semicolon
  (\<^verbatim>\<open>fields ...; where ...; sort ...; limit ...;\<close>). \<open>statements\<close> cuts a query at
  its semicolons, as \<^verbatim>\<open>str.split(";")\<close> does, and \<open>quoted_literal\<close> is the text between
  the first double quote of a query and the next one. Neither is part of the client;
  they are the yardstick for what a built query means.
\<close>

fun split_on :: "char \<Rightarrow> string \<Rightarrow> string list" where
  "split_on c [] = [[]]"
| "split_on c (x # xs) =
     (if x = c then [] # split_on c xs
      else (case split_on c xs of
              [] \<Rightarrow> [[x]]
            | w # ws \<Rightarrow> (x # w) # ws))"

definition statements :: "string \<Rightarrow> string list" where
  "statements q = split_on CHR '';'' q"

definition quoted_literal :: "string \<Rightarrow> string" where
  "quoted_literal q = takeWhile (\<lambda>c. c \<noteq> dq) (drop 1 (dropWhile (\<lambda>c. c \<noteq> dq) q))"

section \<open>The world outside the client\<close>

text \<open>
  The client reads a clock, suspends in \<^verbatim>\<open>asyncio.sleep\<close> and posts HTTP requests.
  \<open>world\<close> holds the clock and the list of these effects in the order they happened.
  Time passes only where the client awaits (a sleep or a request); the statements in
  between are instantaneous.
\<close>

datatype event =
    Sleep real
  | Post string "(string \<times> string) list" string "(string \<times> string) list"

text \<open>\<open>Post url params content headers\<close> is one call of \<^verbatim>\<open>AsyncClient.post\<close>.\<close>

record world =
  clock :: real
  events :: "event list"

text \<open>
  What the two servers answer is an input. A reply is either no response at all
  (\<^verbatim>\<open>post\<close> raises a request error with the given text) or a response with its status
  code, the text of the \<^verbatim>\<open>HTTPStatusError\<close> that \<^verbatim>\<open>raise_for_status\<close> would raise for it,
  and what \<^verbatim>\<open>response.json()\<close> gives.

  For the token endpoint that is \<open>Not_json\<close> (\<^verbatim>\<open>json()\<close> raises) or an object whose
  \<^verbatim>\<open>access_token\<close> entry, when present, is a string and whose \<^verbatim>\<open>expires_in\<close> entry, when
  present, is an integer. For the entity endpoints it is \<open>None\<close> (\<^verbatim>\<open>json()\<close> raises) or
  an array of elements of any type \<open>'j\<close>. Bodies of other shapes are outside the model.
\<close>

datatype token_body =
    Not_json
  | Token_json "string option" "int option"

datatype 'b http_reply =
    No_response string
  | Response int string 'b

text \<open>
  \<open>sleep_overrun\<close> is the time by which \<^verbatim>\<open>asyncio.sleep\<close> returns later than asked, and
  the latencies are the durations of the two requests.
\<close>

record 'j env =
  sleep_overrun :: real
  token_reply :: "token_body http_reply"
  token_latency :: real
  api_reply :: "'j list option http_reply"
  api_latency :: real

text \<open>\<^verbatim>\<open>asyncio.sleep(delay)\<close> returns at once when \<^verbatim>\<open>delay <= 0\<close>.\<close>

definition asyncio_sleep :: "real \<Rightarrow> real \<Rightarrow> world \<Rightarrow> world" where
  "asyncio_sleep overrun delay w =
     w\<lparr>clock := clock w + max 0 delay + overrun, events := events w @ [Sleep delay]\<rparr>"

definition http_post ::
  "string \<Rightarrow> (string \<times> string) list \<Rightarrow> string \<Rightarrow> (string \<times> string) list \<Rightarrow> real \<Rightarrow> world \<Rightarrow> world" where
  "http_post url params content headers latency w =
     w\<lparr>clock := clock w + latency, events := events w @ [Post url params content headers]\<rparr>"

text \<open>\<^verbatim>\<open>raise_for_status\<close> passes the 2xx codes and raises for every other one.\<close>

definition raise_for_status :: "int \<Rightarrow> string \<Rightarrow> error + unit" where
  "raise_for_status status text =
     (if 200 \<le> status \<and> status \<le> 299 then Inr () else Inl (HTTPStatusError status text))"

section \<open>\<^verbatim>\<open>IGDBClient\<close>\<close>

record client =
  client_id :: string
  client_secret :: string
  base_url :: string
  token_url :: string
  access_token :: "string option"
  token_expires_at :: "real option"
  requests_per_second :: real
  last_request_time :: real
  request_interval :: real

text \<open>\<^verbatim>\<open>__init__\<close>: the division \<^verbatim>\<open>1.0 / requests_per_second\<close> raises for zero.\<close>

definition IGDBClient :: "string \<Rightarrow> string \<Rightarrow> real \<Rightarrow> error + client" where
  "IGDBClient cid secret rps =
     (if rps = 0 then Inl ZeroDivisionError
      else Inr \<lparr>client_id = cid, client_secret = secret,
                base_url = ''https://api.igdb.com/v4'',
                token_url = ''https://id.twitch.tv/oauth2/token'',
                access_token = None, token_expires_at = None,
                requests_per_second = rps, last_request_time = 0,
                request_interval = 1 / rps\<rparr>)"

subsection \<open>\<^verbatim>\<open>_get_access_token\<close>\<close>

text \<open>
  Line 42: \<^verbatim>\<open>self.access_token and self.token_expires_at and datetime.now() < self.token_expires_at\<close>.
  A string is true when it is not empty, a \<^verbatim>\<open>datetime\<close> always.
\<close>

definition cached_token :: "client \<Rightarrow> real \<Rightarrow> string option" where
  "cached_token self now =
     (case access_token self of
        None \<Rightarrow> None
      | Some token \<Rightarrow>
          (case token_expires_at self of
             None \<Rightarrow> None
           | Some expires_at \<Rightarrow>
               if token \<noteq> [] \<and> now < expires_at then Some token else None))"

text \<open>
  The body of the \<^verbatim>\<open>try\<close> (lines 48 to 65). The token is assigned before the expiry
  is computed, so an error of the date arithmetic leaves the new token behind.
\<close>

definition token_exchange :: "'j env \<Rightarrow> client \<Rightarrow> world \<Rightarrow> (error + string) \<times> client \<times> world" where
  "token_exchange env self w =
     (let w' = http_post (token_url self)
                 [(''client_id'', client_id self), (''client_secret'', client_secret self),
                  (''grant_type'', ''client_credentials'')]
                 [] [(''Accept'', ''application/json'')] (token_latency env) w
      in case token_reply env of
           No_response text \<Rightarrow> (Inl (RequestError text), self, w')
         | Response status text body \<Rightarrow>
             (case raise_for_status status text of
                Inl e \<Rightarrow> (Inl e, self, w')
              | Inr _ \<Rightarrow>
                  (case body of
                     Not_json \<Rightarrow> (Inl JSONDecodeError, self, w')
                   | Token_json None expires_field \<Rightarrow> (Inl (KeyError ''access_token''), self, w')
                   | Token_json (Some token) expires_field \<Rightarrow>
                       (let self' = self\<lparr>access_token := Some token\<rparr>;
                            expires_in = (case expires_field of None \<Rightarrow> 3600 | Some n \<Rightarrow> n)
                        in case timedelta_seconds (expires_in - 300) of
                             Inl e \<Rightarrow> (Inl e, self', w')
                           | Inr delta \<Rightarrow>
                               (case datetime_add (clock w') delta of
                                  Inl e \<Rightarrow> (Inl e, self', w')
                                | Inr expires_at \<Rightarrow>
                                    (Inr token, self'\<lparr>token_expires_at := Some expires_at\<rparr>, w'))))))"

text \<open>
  The whole method: the cached token when it is still good, otherwise the exchange,
  with \<^verbatim>\<open>except httpx.HTTPError\<close> turning the two HTTP errors into \<^verbatim>\<open>IGDBAuthError\<close>.
\<close>

definition get_access_token :: "'j env \<Rightarrow> client \<Rightarrow> world \<Rightarrow> (error + string) \<times> client \<times> world" where
  "get_access_token env self w =
     (case cached_token self (clock w) of
        Some token \<Rightarrow> (Inr token, self, w)
      | None \<Rightarrow>
          (case token_exchange env self w of
             (Inl e, self', w') \<Rightarrow>
               if is_httpx_HTTPError e
               then (Inl (IGDBAuthError (''Authentication failed: '' @ str_exc e)), self', w')
               else (Inl e, self', w')
           | (Inr token, self', w') \<Rightarrow> (Inr token, self', w')))"

subsection \<open>\<^verbatim>\<open>_rate_limit\<close>\<close>

definition rate_limit :: "real \<Rightarrow> client \<Rightarrow> world \<Rightarrow> client \<times> world" where
  "rate_limit overrun self w =
     (let current_time = clock w;
          time_since_last_request = current_time - last_request_time self;
          w' = (if time_since_last_request < request_interval self
                then (let sleep_time = request_interval self - time_since_last_request
                      in asyncio_sleep overrun sleep_time w)
                else w)
      in (self\<lparr>last_request_time := clock w'\<rparr>, w'))"

text \<open>
  The method awaits between reading \<^verbatim>\<open>last_request_time\<close> (line 74) and writing it
  (line 80). \<open>rate_limit_enter\<close> is the part before the await (lines 73 to 77): it gives
  the time to sleep, if the call has to wait. \<open>rate_limit_leave\<close> is the part after it
  (line 80). \<open>rate_limit\<close> above is one call that no other call interrupts.
\<close>

definition rate_limit_enter :: "client \<Rightarrow> world \<Rightarrow> real option" where
  "rate_limit_enter self w =
     (let current_time = clock w;
          time_since_last_request = current_time - last_request_time self
      in if time_since_last_request < request_interval self
         then Some (request_interval self - time_since_last_request)
         else None)"

definition rate_limit_leave :: "client \<Rightarrow> world \<Rightarrow> client" where
  "rate_limit_leave self w = self\<lparr>last_request_time := clock w\<rparr>"

subsection \<open>\<^verbatim>\<open>_make_request\<close>\<close>

text \<open>
  Lines 97 to 108: the outcome of the entity request. \<^verbatim>\<open>IGDBRateLimitError\<close> is not an
  \<^verbatim>\<open>httpx.HTTPError\<close>, and the handler of that class logs and raises the same exception
  again, so every error leaves the \<^verbatim>\<open>try\<close> as it was raised.
\<close>

definition request_outcome :: "'j list option http_reply \<Rightarrow> error + 'j list" where
  "request_outcome reply =
     (case reply of
        No_response text \<Rightarrow> Inl (RequestError text)
      | Response status text body \<Rightarrow>
          if status = 429 then Inl (IGDBRateLimitError ''Rate limit exceeded'')
          else (case raise_for_status status text of
                  Inl e \<Rightarrow> Inl e
                | Inr _ \<Rightarrow>
                    (case body of
                       None \<Rightarrow> Inl JSONDecodeError
                     | Some response_data \<Rightarrow> Inr response_data)))"

definition request_headers :: "client \<Rightarrow> string \<Rightarrow> (string \<times> string) list" where
  "request_headers self token =
     [(''Client-ID'', client_id self), (''Authorization'', ''Bearer '' @ token),
      (''Accept'', ''application/json''), (''Content-Type'', ''text/plain'')]"

definition make_request ::
  "'j env \<Rightarrow> string \<Rightarrow> string \<Rightarrow> client \<Rightarrow> world \<Rightarrow> (error + 'j list) \<times> client \<times> world" where
  "make_request env endpoint query self w =
     (case rate_limit (sleep_overrun env) self w of
        (self1, w1) \<Rightarrow>
          (case get_access_token env self1 w1 of
             (Inl e, self2, w2) \<Rightarrow> (Inl e, self2, w2)
           | (Inr token, self2, w2) \<Rightarrow>
               (let headers = request_headers self2 token;
                    url = base_url self2 @ ''/'' @ endpoint;
                    w3 = http_post url [] query headers (api_latency env) w2
                in (request_outcome (api_reply env), self2, w3))))"

subsection \<open>The three operations\<close>

text \<open>
  \<^verbatim>\<open>get_upcoming_games\<close> computes the two timestamps before anything else; an overflow of
  \<^verbatim>\<open>timedelta(days=days_ahead)\<close> or of the addition is raised outside the \<^verbatim>\<open>try\<close>. The
  handlers of the three methods log and raise the same exception again.
\<close>

definition get_upcoming_games ::
  "'j env \<Rightarrow> int \<Rightarrow> int \<Rightarrow> int list option \<Rightarrow> client \<Rightarrow> world \<Rightarrow> (error + 'j list) \<times> client \<times> world" where
  "get_upcoming_games env days_ahead limit platform_ids self w =
     (let start_timestamp = py_int (clock w)
      in case timedelta_days days_ahead of
           Inl e \<Rightarrow> (Inl e, self, w)
         | Inr delta \<Rightarrow>
             (case datetime_add (clock w) delta of
                Inl e \<Rightarrow> (Inl e, self, w)
              | Inr end_time \<Rightarrow>
                  (let end_timestamp = py_int end_time;
                       query = upcoming_query start_timestamp end_timestamp limit platform_ids
                   in make_request env ''games'' query self w)))"

definition search_games ::
  "'j env \<Rightarrow> string \<Rightarrow> int \<Rightarrow> client \<Rightarrow> world \<Rightarrow> (error + 'j list) \<times> client \<times> world" where
  "search_games env search_term limit self w =
     make_request env ''games'' (search_query search_term limit) self w"

definition get_platforms ::
  "'j env \<Rightarrow> client \<Rightarrow> world \<Rightarrow> (error + 'j list) \<times> client \<times> world" where
  "get_platforms env self w = make_request env ''platforms'' platforms_query self w"

subsection \<open>Calls of \<^verbatim>\<open>_rate_limit\<close> on one event loop\<close>

text \<open>
  \<^verbatim>\<open>server.py\<close> keeps one client for all request handlers and for the background task,
  and the client has no lock. On the event loop a call runs uninterrupted up to its
  await; while it sleeps, other calls run. A \<open>loop\<close> is the shared client, the world,
  the calls that sleep, each with the time at which its sleep is due to end, and the
  calls that have left the limiter, each with the time at which it left (the value it
  wrote to \<^verbatim>\<open>last_request_time\<close>), in the order in which they left.

  The loop moves by three actions. \<open>Tick d\<close>: the time \<open>d\<close> passes. \<open>Begin k overrun\<close>:
  call \<open>k\<close> runs lines 73 to 77; if it need not wait it runs line 80 at once and has
  left, otherwise it calls \<^verbatim>\<open>asyncio.sleep\<close> and is suspended until its sleep time and
  \<open>overrun\<close> have passed. \<open>Resume k\<close>: the sleeping call \<open>k\<close> continues, not before its
  sleep is due to end, and runs line 80.
\<close>

record loop =
  loop_client :: client
  loop_world :: world
  suspended :: "(nat \<times> real) list"
  released :: "(nat \<times> real) list"

datatype action =
    Tick real
  | Begin nat real
  | Resume nat

definition loop_init :: "client \<Rightarrow> world \<Rightarrow> loop" where
  "loop_init self w = \<lparr>loop_client = self, loop_world = w, suspended = [], released = []\<rparr>"

fun loop_step :: "action \<Rightarrow> loop \<Rightarrow> loop" where
  "loop_step (Tick d) st =
     st\<lparr>loop_world := (loop_world st)\<lparr>clock := clock (loop_world st) + d\<rparr>\<rparr>"
| "loop_step (Begin k overrun) st =
     (case rate_limit_enter (loop_client st) (loop_world st) of
        None \<Rightarrow>
          st\<lparr>loop_client := rate_limit_leave (loop_client st) (loop_world st),
             released := released st @ [(k, clock (loop_world st))]\<rparr>
      | Some sleep_time \<Rightarrow>
          st\<lparr>loop_world :=
               (loop_world st)\<lparr>events := events (loop_world st) @ [Sleep sleep_time]\<rparr>,
             suspended :=
               suspended st @ [(k, clock (loop_world st) + max 0 sleep_time + overrun)]\<rparr>)"
| "loop_step (Resume k) st =
     (case map_of (suspended st) k of
        None \<Rightarrow> st
      | Some due \<Rightarrow>
          (let w' = (loop_world st)\<lparr>clock := max (clock (loop_world st)) due\<rparr>
           in st\<lparr>loop_world := w',
                 loop_client := rate_limit_leave (loop_client st) w',
                 suspended := filter (\<lambda>p. fst p \<noteq> k) (suspended st),
                 released := released st @ [(k, clock w')]\<rparr>))"

fun run_loop :: "action list \<Rightarrow> loop \<Rightarrow> loop" where
  "run_loop [] st = st"
| "run_loop (a # rest) st = run_loop rest (loop_step a st)"

section \<open>Entity conversion in the routes\<close>

text \<open>
  \<^verbatim>\<open>server.py\<close> turns each element of a batch into an entity with \<^verbatim>\<open>Game(**game_data)\<close>
  inside \<^verbatim>\<open>try\<close>/\<^verbatim>\<open>except Exception: continue\<close>. The validation is pydantic's; it is a
  parameter \<open>parse\<close> here, with \<open>Inl\<close> for any exception it raises. The same loop stands
  in \<^verbatim>\<open>get_upcoming_games\<close> (twice), \<^verbatim>\<open>search_games\<close> and \<^verbatim>\<open>sync_data\<close>.
\<close>

fun convert_entities :: "('j \<Rightarrow> 'x + 'g) \<Rightarrow> 'j list \<Rightarrow> 'g list \<Rightarrow> 'g list" where
  "convert_entities parse [] games = games"
| "convert_entities parse (game_data # rest) games =
     (case parse game_data of
        Inr game \<Rightarrow> convert_entities parse rest (games @ [game])
      | Inl e \<Rightarrow> convert_entities parse rest games)"

record 'g GameResponse =
  games :: "'g list"
  total_count :: "nat option"
  page :: int
  per_page :: int

datatype HTTPException = HTTPException int string

text \<open>
  The route \<^verbatim>\<open>/api/games/search\<close>: every exception of the client becomes a response
  with status 500; otherwise the converted batch is returned.
\<close>

definition search_games_route ::
  "('j \<Rightarrow> 'x + 'g) \<Rightarrow> 'j env \<Rightarrow> string \<Rightarrow> int \<Rightarrow> client \<Rightarrow> world
     \<Rightarrow> (HTTPException + 'g GameResponse) \<times> client \<times> world" where
  "search_games_route parse env q limit self w =
     (case search_games env q limit self w of
        (Inl e, self', w') \<Rightarrow> (Inl (HTTPException 500 ''Internal server error''), self', w')
      | (Inr games_data, self', w') \<Rightarrow>
          (let games = convert_entities parse games_data []
           in (Inr \<lparr>games = games, total_count = Some (length games), page = 1, per_page = limit\<rparr>,
               self', w')))"

section \<open>Vocabulary of the properties\<close>

text \<open>
  A reply is a failure when no response arrived or its status is not 2xx;
  \<open>failure_text\<close> is then the text of the \<^verbatim>\<open>httpx\<close> exception, and \<open>reply_status\<close> the
  status code when there is a response.
\<close>

fun failure_text :: "'b http_reply \<Rightarrow> string option" where
  "failure_text (No_response text) = Some text"
| "failure_text (Response status text body) =
     (if 200 \<le> status \<and> status \<le> 299 then None else Some text)"

fun reply_status :: "'b http_reply \<Rightarrow> int option" where
  "reply_status (No_response text) = None"
| "reply_status (Response status text body) = Some status"

text \<open>The effects of the three steps of a request, as they appear in \<open>events\<close>.\<close>

definition slot_events :: "client \<Rightarrow> world \<Rightarrow> event list" where
  "slot_events self w =
     (if clock w - last_request_time self < request_interval self
      then [Sleep (request_interval self - (clock w - last_request_time self))]
      else [])"

definition token_events :: "client \<Rightarrow> world \<Rightarrow> event list" where
  "token_events self w =
     (case cached_token self (clock w) of
        Some token \<Rightarrow> []
      | None \<Rightarrow>
          [Post (token_url self)
             [(''client_id'', client_id self), (''client_secret'', client_secret self),
              (''grant_type'', ''client_credentials'')]
             [] [(''Accept'', ''application/json'')]])"

definition query_events :: "client \<Rightarrow> string \<Rightarrow> string \<Rightarrow> error + string \<Rightarrow> event list" where
  "query_events self endpoint query r =
     (case r of
        Inl e \<Rightarrow> []
      | Inr token \<Rightarrow>
          [Post (base_url self @ ''/'' @ endpoint) [] query
             [(''Client-ID'', client_id self), (''Authorization'', ''Bearer '' @ token),
              (''Accept'', ''application/json''), (''Content-Type'', ''text/plain'')]])"

text \<open>
  A schedule is \<open>non_overlapping\<close> from a state when every call begins while no other
  call sleeps in the limiter, and \<open>never_early\<close> holds of an action whose sleep does
  not end before the time asked for. \<open>spaced\<close> says that each element of a list of
  times is at least the interval after the one before it; \<open>limiter_invariant\<close> is what
  non-overlapping calls preserve.
\<close>

fun non_overlapping :: "action list \<Rightarrow> loop \<Rightarrow> bool" where
  "non_overlapping [] st = True"
| "non_overlapping (Begin k overrun # rest) st =
     (suspended st = [] \<and> non_overlapping rest (loop_step (Begin k overrun) st))"
| "non_overlapping (a # rest) st = non_overlapping rest (loop_step a st)"

fun never_early :: "action \<Rightarrow> bool" where
  "never_early (Begin k overrun) = (0 \<le> overrun)"
| "never_early a = True"

fun spaced :: "real \<Rightarrow> real list \<Rightarrow> bool" where
  "spaced interval [] = True"
| "spaced interval [x] = True"
| "spaced interval (x # y # ys) = (x + interval \<le> y \<and> spaced interval (y # ys))"

definition limiter_invariant :: "real \<Rightarrow> loop \<Rightarrow> bool" where
  "limiter_invariant interval st \<longleftrightarrow>
     request_interval (loop_client st) = interval
   \<and> spaced interval (map snd (released st))
   \<and> (released st \<noteq> [] \<longrightarrow> snd (last (released st)) = last_request_time (loop_client st))
   \<and> length (suspended st) \<le> 1
   \<and> (\<forall>p \<in> set (suspended st). last_request_time (loop_client st) + interval \<le> snd p)"

text \<open>
  \<open>request_start\<close> is the clock at which \<^verbatim>\<open>_make_request\<close> posts the entity request
  (line 98), if it gets that far: the limiter and the token come first.
\<close>

definition request_start :: "'j env \<Rightarrow> client \<Rightarrow> world \<Rightarrow> real option" where
  "request_start env self w =
     (case rate_limit (sleep_overrun env) self w of
        (self1, w1) \<Rightarrow>
          (case get_access_token env self1 w1 of
             (Inl e, self2, w2) \<Rightarrow> None
           | (Inr token, self2, w2) \<Rightarrow> Some (clock w2)))"

section \<open>Sample inputs\<close>

text \<open>
  A client as \<^verbatim>\<open>IGDBClient("id", "secret", 3.5)\<close> constructs it, a clock at
  1700000000, and replies of the two servers: a token that lives an hour and a batch
  of ten entity objects, written as lists of fields, of which the fourth has no name.
  \<open>short_lived_env\<close> differs in the token's lifetime of 100 seconds. \<open>sample_parse\<close>
  accepts an object that has the two mandatory fields of \<^verbatim>\<open>Game\<close>.
\<close>

definition sample_client :: client where
  "sample_client =
     \<lparr>client_id = ''id'', client_secret = ''secret'',
      base_url = ''https://api.igdb.com/v4'',
      token_url = ''https://id.twitch.tv/oauth2/token'',
      access_token = None, token_expires_at = None,
      requests_per_second = 7 / 2, last_request_time = 0,
      request_interval = 2 / 7\<rparr>"

definition sample_world :: world where
  "sample_world = \<lparr>clock = 1700000000, events = []\<rparr>"

definition sample_batch :: "(string \<times> string) list list" where
  "sample_batch =
     [[(''id'', ''1''), (''name'', ''A'')], [(''id'', ''2''), (''name'', ''B'')],
      [(''id'', ''3''), (''name'', ''C'')], [(''id'', ''4'')],
      [(''id'', ''5''), (''name'', ''E'')], [(''id'', ''6''), (''name'', ''F'')],
      [(''id'', ''7''), (''name'', ''G'')], [(''id'', ''8''), (''name'', ''H'')],
      [(''id'', ''9''), (''name'', ''I'')], [(''id'', ''10''), (''name'', ''J'')]]"

definition sample_env :: "(string \<times> string) list env" where
  "sample_env =
     \<lparr>sleep_overrun = 0,
      token_reply = Response 200 [] (Token_json (Some ''abc'') (Some 3600)),
      token_latency = 0,
      api_reply = Response 200 [] (Some sample_batch),
      api_latency = 0\<rparr>"

definition short_lived_env :: "(string \<times> string) list env" where
  "short_lived_env =
     sample_env\<lparr>token_reply := Response 200 [] (Token_json (Some ''abc'') (Some 100))\<rparr>"

definition sample_parse :: "(string \<times> string) list \<Rightarrow> string + string \<times> string" where
  "sample_parse game_data =
     (case map_of game_data ''id'' of
        None \<Rightarrow> Inl ''id: field required''
      | Some i \<Rightarrow>
          (case map_of game_data ''name'' of
             None \<Rightarrow> Inl ''name: field required''
           | Some n \<Rightarrow> Inr (i, n)))"

text \<open>
  \<open>slow_token_env\<close> is \<open>sample_env\<close> with a token request of two seconds and entity
  requests of a tenth of a second. \<open>overlapping_calls\<close> is a schedule of three calls:
  the first finds the limiter free; a tenth of a second later the second begins and
  sleeps, and the third begins while the second sleeps.
\<close>

definition slow_token_env :: "(string \<times> string) list env" where
  "slow_token_env = sample_env\<lparr>token_latency := 2, api_latency := 1 / 10\<rparr>"

definition overlapping_calls :: "action list" where
  "overlapping_calls = [Begin 0 0, Tick (1 / 10), Begin 1 0, Begin 2 0, Resume 1, Resume 2]"

text \<open>In \<open>separate_calls\<close> each of the three calls has left before the next begins.\<close>

definition separate_calls :: "action list" where
  "separate_calls =
     [Begin 0 0, Tick (1 / 10), Begin 1 0, Resume 1, Tick (1 / 10), Begin 2 (1 / 100), Resume 2]"

section \<open>Auxiliary facts\<close>

subsection \<open>Evaluating the string functions\<close>

lemma str_nat_digit: "n < 10 \<Longrightarrow> str_nat n = [digit_char n]"
  by (simp add: str_nat.simps)

lemma str_nat_more: "10 \<le> n \<Longrightarrow> str_nat n = str_nat (n div 10) @ [digit_char (n mod 10)]"
  by (subst str_nat.simps) simp

lemmas str_eval = str_int_def str_nat_digit str_nat_more digit_char_def

lemma sample_numbers:
  "str_int 1700000000 = ''1700000000''" "str_int 1707776000 = ''1707776000''"
  "str_int 50 = ''50''" "str_int 20 = ''20''" "str_int 6 = ''6''" "str_int 48 = ''48''"
  by (simp_all add: str_eval)

lemma split_on_nonempty: "split_on c s \<noteq> []"
  by (induction s) (auto split: list.splits)

lemma split_on_prefix:
  "c \<notin> set xs \<Longrightarrow> split_on c (xs @ ys) = (xs @ hd (split_on c ys)) # tl (split_on c ys)"
  using split_on_nonempty [of c ys]
  by (induction xs) (auto split: list.splits)

lemma takeWhile_upto:
  "takeWhile (\<lambda>c. c \<noteq> d) (xs @ d # ys) = takeWhile (\<lambda>c. c \<noteq> d) xs"
  by (induction xs) auto

lemma quoted_literal_search:
  "quoted_literal (search_query search_term limit) = takeWhile (\<lambda>c. c \<noteq> dq) search_term"
proof -
  have "dropWhile (\<lambda>c. c \<noteq> dq) (''search '' @ dq # rest) = dq # rest" for rest
    by (simp add: dq_def)
  then show ?thesis
    by (simp add: quoted_literal_def search_query_def takeWhile_upto)
qed

lemma sample_upcoming_query:
  "upcoming_query 1700000000 1707776000 50 (Some [6, 48])
     = upcoming_fields
         @ ''; where release_dates.date >= 1700000000 & release_dates.date < 1707776000''
         @ ''; & release_dates.platform = (6 | 48)''
         @ ''; sort release_dates.date asc; limit 50;''"
  by (simp add: upcoming_query_def Let_def sample_numbers)

subsection \<open>The rate limiter\<close>

lemma rate_limit_fields:
  "client_id (fst (rate_limit overrun self w)) = client_id self"
  "client_secret (fst (rate_limit overrun self w)) = client_secret self"
  "base_url (fst (rate_limit overrun self w)) = base_url self"
  "token_url (fst (rate_limit overrun self w)) = token_url self"
  "access_token (fst (rate_limit overrun self w)) = access_token self"
  "token_expires_at (fst (rate_limit overrun self w)) = token_expires_at self"
  "request_interval (fst (rate_limit overrun self w)) = request_interval self"
  by (simp_all add: rate_limit_def Let_def)

lemma rate_limit_recorded:
  "last_request_time (fst (rate_limit overrun self w)) = clock (snd (rate_limit overrun self w))"
  by (simp add: rate_limit_def Let_def)

lemma rate_limit_events:
  "events (snd (rate_limit overrun self w)) = events w @ slot_events self w"
  by (simp add: rate_limit_def Let_def slot_events_def asyncio_sleep_def)

lemma rate_limit_gap:
  assumes "0 \<le> overrun"
  shows "last_request_time self + request_interval self
           \<le> last_request_time (fst (rate_limit overrun self w))"
  using assms by (simp add: rate_limit_def Let_def asyncio_sleep_def max_def)

lemma rate_limit_phases:
  "rate_limit overrun self w =
     (case rate_limit_enter self w of
        None \<Rightarrow> (rate_limit_leave self w, w)
      | Some sleep_time \<Rightarrow>
          (rate_limit_leave self (asyncio_sleep overrun sleep_time w),
           asyncio_sleep overrun sleep_time w))"
  by (simp add: rate_limit_def rate_limit_enter_def rate_limit_leave_def Let_def)

text \<open>One call that begins and resumes with nothing in between is \<open>rate_limit\<close>.\<close>

lemma rate_limit_as_loop:
  assumes "0 \<le> overrun"
  shows "run_loop [Begin k overrun, Resume k] (loop_init self w)
           = \<lparr>loop_client = fst (rate_limit overrun self w),
              loop_world = snd (rate_limit overrun self w),
              suspended = [],
              released = [(k, last_request_time (fst (rate_limit overrun self w)))]\<rparr>"
proof (cases "rate_limit_enter self w")
  case None
  then show ?thesis
    by (simp add: rate_limit_phases loop_init_def rate_limit_leave_def)
next
  case (Some sleep_time)
  then have "0 < sleep_time"
    by (auto simp: rate_limit_enter_def Let_def split: if_splits)
  then show ?thesis
    using Some assms
    by (simp add: rate_limit_phases loop_init_def rate_limit_leave_def asyncio_sleep_def
          Let_def max_def)
qed

subsection \<open>Calls that do not overlap\<close>

lemma spaced_snoc:
  "spaced interval (xs @ [y]) = (spaced interval xs \<and> (xs = [] \<or> last xs + interval \<le> y))"
  by (induction interval xs rule: spaced.induct) auto

lemma spaced_nth:
  "spaced interval xs \<Longrightarrow> Suc i < length xs \<Longrightarrow> xs ! i + interval \<le> xs ! Suc i"
proof (induction interval xs arbitrary: i rule: spaced.induct)
  case (3 interval x y ys)
  then show ?case by (cases i) auto
qed auto

lemma limiter_invariant_init:
  "limiter_invariant (request_interval self) (loop_init self w)"
  by (simp add: limiter_invariant_def loop_init_def)

text \<open>
  A step keeps the invariant when its sleep does not end early and, if it begins a
  call, no call sleeps: a call that leaves at once found the interval elapsed since the
  last value written, and the only call that can sleep is due no earlier than the
  interval after that value.
\<close>

lemma limiter_invariant_step:
  assumes inv: "limiter_invariant interval st"
    and early: "never_early a"
    and free: "\<And>k overrun. a = Begin k overrun \<Longrightarrow> suspended st = []"
  shows "limiter_invariant interval (loop_step a st)"
proof (cases a)
  case (Tick d)
  then show ?thesis using inv by (simp add: limiter_invariant_def)
next
  case (Begin k overrun)
  have written: "last (map snd (released st)) = last_request_time (loop_client st)"
    if "released st \<noteq> []"
    using inv that by (simp add: limiter_invariant_def last_map)
  have none: "suspended st = []" using free Begin by simp
  have pos: "0 \<le> overrun" using early Begin by simp
  show ?thesis
  proof (cases "rate_limit_enter (loop_client st) (loop_world st)")
    case None
    then have "last_request_time (loop_client st) + interval \<le> clock (loop_world st)"
      using inv by (auto simp: rate_limit_enter_def limiter_invariant_def Let_def split: if_splits)
    then show ?thesis
      using inv Begin None none written
      by (cases "released st = []")
         (simp_all add: limiter_invariant_def rate_limit_leave_def spaced_snoc)
  next
    case (Some sleep_time)
    then have "clock (loop_world st) + sleep_time = last_request_time (loop_client st) + interval"
      using inv by (auto simp: rate_limit_enter_def limiter_invariant_def Let_def split: if_splits)
    then have "last_request_time (loop_client st) + interval
                 \<le> clock (loop_world st) + max 0 sleep_time + overrun"
      using pos by (simp add: max_def)
    then show ?thesis
      using inv Begin Some none by (simp add: limiter_invariant_def)
  qed
next
  case (Resume k)
  have written: "last (map snd (released st)) = last_request_time (loop_client st)"
    if "released st \<noteq> []"
    using inv that by (simp add: limiter_invariant_def last_map)
  show ?thesis
  proof (cases "map_of (suspended st) k")
    case None
    then show ?thesis using inv Resume by simp
  next
    case (Some due)
    then have mem: "(k, due) \<in> set (suspended st)" by (rule map_of_SomeD)
    have "length (suspended st) \<le> 1" using inv by (simp add: limiter_invariant_def)
    with mem have only: "suspended st = [(k, due)]"
      by (cases "suspended st") auto
    have "last_request_time (loop_client st) + interval \<le> due"
      using inv mem by (auto simp: limiter_invariant_def)
    then have "last_request_time (loop_client st) + interval \<le> max (clock (loop_world st)) due"
      by simp
    then show ?thesis
      using inv Resume Some only written
      by (cases "released st = []")
         (simp_all add: limiter_invariant_def rate_limit_leave_def spaced_snoc Let_def)
  qed
qed

lemma limiter_invariant_run:
  assumes "non_overlapping schedule st" and "list_all never_early schedule"
    and "limiter_invariant interval st"
  shows "limiter_invariant interval (run_loop schedule st)"
  using assms
proof (induction schedule arbitrary: st)
  case Nil
  then show ?case by simp
next
  case (Cons a schedule)
  have step: "limiter_invariant interval (loop_step a st)"
  proof (rule limiter_invariant_step)
    show "limiter_invariant interval st" by (rule Cons.prems(3))
    show "never_early a" using Cons.prems(2) by simp
    show "suspended st = []" if "a = Begin k overrun" for k overrun
      using Cons.prems(1) that by simp
  qed
  have rest: "non_overlapping schedule (loop_step a st)"
    using Cons.prems(1) by (cases a) simp_all
  show ?case
    using Cons.IH [OF rest _ step] Cons.prems(2) by simp
qed

lemma non_overlapping_spaced:
  assumes "non_overlapping schedule (loop_init self w)" and "list_all never_early schedule"
    and "Suc i < length (released (run_loop schedule (loop_init self w)))"
  shows "snd (released (run_loop schedule (loop_init self w)) ! i) + request_interval self
           \<le> snd (released (run_loop schedule (loop_init self w)) ! Suc i)"
proof -
  have "limiter_invariant (request_interval self) (run_loop schedule (loop_init self w))"
    using limiter_invariant_run [OF assms(1,2) limiter_invariant_init] .
  then have "spaced (request_interval self)
               (map snd (released (run_loop schedule (loop_init self w))))"
    by (simp add: limiter_invariant_def)
  from spaced_nth [OF this, of i] assms(3) show ?thesis by simp
qed

subsection \<open>The token exchange\<close>

lemma token_exchange_fields:
  assumes "token_exchange env self w = (r, self', w')"
  shows "client_id self' = client_id self \<and> client_secret self' = client_secret self
       \<and> base_url self' = base_url self \<and> token_url self' = token_url self
       \<and> last_request_time self' = last_request_time self
       \<and> request_interval self' = request_interval self"
  using assms
  by (auto simp: token_exchange_def Let_def
           split: http_reply.splits sum.splits token_body.splits option.splits)

lemma token_exchange_world:
  assumes "token_exchange env self w = (r, self', w')"
  shows "w' = http_post (token_url self)
                [(''client_id'', client_id self), (''client_secret'', client_secret self),
                 (''grant_type'', ''client_credentials'')]
                [] [(''Accept'', ''application/json'')] (token_latency env) w"
  using assms
  by (auto simp: token_exchange_def Let_def
           split: http_reply.splits sum.splits token_body.splits option.splits)

lemma get_access_token_fields:
  assumes "get_access_token env self w = (r, self', w')"
  shows "client_id self' = client_id self \<and> client_secret self' = client_secret self
       \<and> base_url self' = base_url self \<and> token_url self' = token_url self
       \<and> last_request_time self' = last_request_time self
       \<and> request_interval self' = request_interval self"
proof (cases "cached_token self (clock w)")
  case (Some token)
  then show ?thesis using assms by (simp add: get_access_token_def)
next
  case None
  obtain r0 self0 w0 where ex: "token_exchange env self w = (r0, self0, w0)"
    by (cases "token_exchange env self w")
  have "self' = self0"
    using assms None ex by (auto simp: get_access_token_def split: sum.splits if_splits)
  then show ?thesis using token_exchange_fields [OF ex] by simp
qed

lemma get_access_token_events:
  assumes "get_access_token env self w = (r, self', w')"
  shows "events w' = events w @ token_events self w"
proof (cases "cached_token self (clock w)")
  case (Some token)
  then show ?thesis using assms by (simp add: get_access_token_def token_events_def)
next
  case None
  obtain r0 self0 w0 where ex: "token_exchange env self w = (r0, self0, w0)"
    by (cases "token_exchange env self w")
  have "w' = w0"
    using assms None ex by (auto simp: get_access_token_def split: sum.splits if_splits)
  then show ?thesis
    using token_exchange_world [OF ex] None by (simp add: token_events_def http_post_def)
qed

subsection \<open>One request\<close>

lemma make_request_events:
  assumes rl: "rate_limit (sleep_overrun env) self w = (self1, w1)"
    and tok: "get_access_token env self1 w1 = (r, self2, w2)"
  shows "events (snd (snd (make_request env endpoint query self w)))
           = events w @ slot_events self w @ token_events self1 w1 @ query_events self endpoint query r"
proof -
  have e1: "events w1 = events w @ slot_events self w"
    using rate_limit_events [of "sleep_overrun env" self w] rl by simp
  have e2: "events w2 = events w1 @ token_events self1 w1"
    using get_access_token_events [OF tok] .
  have f1: "base_url self1 = base_url self" "client_id self1 = client_id self"
    using rate_limit_fields [of "sleep_overrun env" self w] rl by simp_all
  have f2: "base_url self2 = base_url self" "client_id self2 = client_id self"
    using get_access_token_fields [OF tok] f1 by simp_all
  show ?thesis
  proof (cases r)
    case (Inl e)
    then show ?thesis using rl tok e1 e2 by (simp add: make_request_def query_events_def)
  next
    case (Inr token)
    then show ?thesis
      using rl tok e1 e2 f2
      by (simp add: make_request_def query_events_def Let_def http_post_def request_headers_def)
  qed
qed

subsection \<open>The conversion loop\<close>

lemma convert_entities_append:
  "convert_entities parse games_data parsed
     = parsed @ map (\<lambda>d. projr (parse d)) (filter (\<lambda>d. \<not> isl (parse d)) games_data)"
  by (induction games_data arbitrary: parsed) (auto split: sum.splits)

lemma length_filter_complement:
  "length (filter (\<lambda>x. \<not> P x) xs) = length xs - length (filter P xs)"
  using sum_length_filter_compl [of P xs] by simp

subsection \<open>The sample inputs\<close>

lemma IGDBClient_sample: "IGDBClient ''id'' ''secret'' (7 / 2) = Inr sample_client"
  by (simp add: IGDBClient_def sample_client_def)

lemma sample_rate_limit:
  "rate_limit 0 sample_client sample_world
     = (sample_client\<lparr>last_request_time := 1700000000\<rparr>, sample_world)"
  by (simp add: rate_limit_def sample_client_def sample_world_def Let_def)

lemma sample_token:
  assumes "token_reply env = Response 200 [] (Token_json (Some ''abc'') (Some 3600))"
    and "token_latency env = 0"
  shows "get_access_token env (sample_client\<lparr>last_request_time := 1700000000\<rparr>) sample_world
     = (Inr ''abc'',
        sample_client\<lparr>last_request_time := 1700000000, access_token := Some ''abc'',
                        token_expires_at := Some 1700003300\<rparr>,
        sample_world\<lparr>events :=
          [Post ''https://id.twitch.tv/oauth2/token''
             [(''client_id'', ''id''), (''client_secret'', ''secret''),
              (''grant_type'', ''client_credentials'')]
             [] [(''Accept'', ''application/json'')]]\<rparr>)"
  using assms
  by (simp add: get_access_token_def cached_token_def token_exchange_def Let_def
        raise_for_status_def timedelta_seconds_def datetime_add_def datetime_min_def
        datetime_end_def http_post_def sample_client_def sample_world_def)

lemma short_lived_token:
  "get_access_token short_lived_env sample_client sample_world
     = (Inr ''abc'',
        sample_client\<lparr>access_token := Some ''abc'', token_expires_at := Some 1699999800\<rparr>,
        sample_world\<lparr>events :=
          [Post ''https://id.twitch.tv/oauth2/token''
             [(''client_id'', ''id''), (''client_secret'', ''secret''),
              (''grant_type'', ''client_credentials'')]
             [] [(''Accept'', ''application/json'')]]\<rparr>)"
  by (simp add: get_access_token_def cached_token_def token_exchange_def Let_def
        raise_for_status_def timedelta_seconds_def datetime_add_def datetime_min_def
        datetime_end_def http_post_def short_lived_env_def sample_env_def sample_client_def
        sample_world_def)

section \<open>The claims\<close>

text \<open>
  C1 (as stated): for a token reply with \<^verbatim>\<open>expires_in <= 300\<close> the stored expiry is
  strictly later than the current time. It is not: the client subtracts the 300
  seconds without any lower bound. With \<^verbatim>\<open>expires_in = 100\<close> and the clock at
  1700000000 the exchange succeeds and stores the expiry 1699999800, which is 200
  seconds in the past.
\<close>

theorem short_lived_token_stored_expired:
  "fst (get_access_token short_lived_env sample_client sample_world) = Inr ''abc''
   \<and> token_expires_at (fst (snd (get_access_token short_lived_env sample_client sample_world)))
       = Some 1699999800
   \<and> clock (snd (snd (get_access_token short_lived_env sample_client sample_world)))
       = 1700000000
   \<and> \<not> (1700000000 :: real) < 1699999800"
  by (simp add: short_lived_token) (simp add: sample_world_def)

text \<open>
  C1 (amended): whenever the token exchange succeeds, the stored expiry is the time of
  the exchange plus \<^verbatim>\<open>expires_in - 300\<close> seconds (3600 when the reply has no
  \<^verbatim>\<open>expires_in\<close>), without clamping; hence the token just stored passes the freshness
  test of the next call exactly when it is not empty and \<^verbatim>\<open>expires_in > 300\<close>.
\<close>

theorem stored_expiry:
  assumes "cached_token self (clock w) = None"
    and "token_reply env = Response status text (Token_json token_field expires_field)"
    and "get_access_token env self w = (Inr token, self', w')"
  shows "token_expires_at self'
           = Some (clock w' + of_int ((case expires_field of None \<Rightarrow> 3600 | Some n \<Rightarrow> n) - 300))
       \<and> (cached_token self' (clock w') = Some token)
           = (token \<noteq> [] \<and> 300 < (case expires_field of None \<Rightarrow> 3600 | Some n \<Rightarrow> n))"
  using assms
  by (auto simp: get_access_token_def token_exchange_def Let_def raise_for_status_def
                 timedelta_seconds_def datetime_add_def http_post_def cached_token_def
           split: if_splits option.splits sum.splits)

theorem stored_expiry_witness:
  "token_expires_at (fst (snd (get_access_token short_lived_env sample_client sample_world)))
     = Some (1700000000 + of_int (100 - 300))
   \<and> cached_token (fst (snd (get_access_token short_lived_env sample_client sample_world)))
         1700000000 \<noteq> Some ''abc''"
proof -
  have c: "cached_token sample_client (clock sample_world) = None"
    by (simp add: cached_token_def sample_client_def)
  have r: "token_reply short_lived_env = Response 200 [] (Token_json (Some ''abc'') (Some 100))"
    by (simp add: short_lived_env_def)
  have w: "clock (sample_world\<lparr>events :=
          [Post ''https://id.twitch.tv/oauth2/token''
             [(''client_id'', ''id''), (''client_secret'', ''secret''),
              (''grant_type'', ''client_credentials'')]
             [] [(''Accept'', ''application/json'')]]\<rparr>) = 1700000000"
    by (simp add: sample_world_def)
  from stored_expiry [OF c r short_lived_token] show ?thesis
    by (simp add: short_lived_token w)
qed

text \<open>
  C2: when the entity request is sent and fails, the failure is classified by the
  reply alone. Status 429 raises \<^verbatim>\<open>IGDBRateLimitError\<close>. Every other status outside 2xx
  raises the \<^verbatim>\<open>httpx\<close> status error with that status and its text, and a request without
  response raises the \<^verbatim>\<open>httpx\<close> request error with its text: these two are the generic
  upstream error, which the client passes on as it is.
\<close>

theorem request_classification:
  assumes "rate_limit (sleep_overrun env) self w = (self1, w1)"
    and "get_access_token env self1 w1 = (Inr token, self2, w2)"
    and "failure_text (api_reply env) = Some text"
  shows "fst (make_request env endpoint query self w)
           = (case reply_status (api_reply env) of
                None \<Rightarrow> Inl (RequestError text)
              | Some status \<Rightarrow>
                  if status = 429 then Inl (IGDBRateLimitError ''Rate limit exceeded'')
                  else Inl (HTTPStatusError status text))"
  using assms
  by (cases "api_reply env")
     (auto simp: make_request_def Let_def request_outcome_def raise_for_status_def)

theorem request_classification_witness:
  "fst (make_request (sample_env\<lparr>api_reply := Response 429 ''Too Many Requests'' None\<rparr>)
          ''platforms'' platforms_query sample_client sample_world)
     = Inl (IGDBRateLimitError ''Rate limit exceeded'')
   \<and> fst (make_request (sample_env\<lparr>api_reply := Response 500 ''Server Error'' None\<rparr>)
          ''platforms'' platforms_query sample_client sample_world)
     = Inl (HTTPStatusError 500 ''Server Error'')
   \<and> fst (make_request (sample_env\<lparr>api_reply := No_response ''timed out''\<rparr>)
          ''platforms'' platforms_query sample_client sample_world)
     = Inl (RequestError ''timed out'')"
proof -
  have rl: "rate_limit (sleep_overrun (sample_env\<lparr>api_reply := reply\<rparr>)) sample_client sample_world
              = (sample_client\<lparr>last_request_time := 1700000000\<rparr>, sample_world)" for reply
    using sample_rate_limit by (simp add: sample_env_def)
  have tok: "get_access_token (sample_env\<lparr>api_reply := reply\<rparr>)
               (sample_client\<lparr>last_request_time := 1700000000\<rparr>) sample_world
     = (Inr ''abc'',
        sample_client\<lparr>last_request_time := 1700000000, access_token := Some ''abc'',
                        token_expires_at := Some 1700003300\<rparr>,
        sample_world\<lparr>events :=
          [Post ''https://id.twitch.tv/oauth2/token''
             [(''client_id'', ''id''), (''client_secret'', ''secret''),
              (''grant_type'', ''client_credentials'')]
             [] [(''Accept'', ''application/json'')]]\<rparr>)" for reply
    by (rule sample_token) (simp_all add: sample_env_def)
  have "failure_text (api_reply (sample_env\<lparr>api_reply := Response 429 ''Too Many Requests'' None\<rparr>))
          = Some ''Too Many Requests''"
    by simp
  from request_classification [OF rl tok this, of "''platforms''" platforms_query]
  have a: "fst (make_request (sample_env\<lparr>api_reply := Response 429 ''Too Many Requests'' None\<rparr>)
          ''platforms'' platforms_query sample_client sample_world)
     = Inl (IGDBRateLimitError ''Rate limit exceeded'')"
    by simp
  have "failure_text (api_reply (sample_env\<lparr>api_reply := Response 500 ''Server Error'' None\<rparr>))
          = Some ''Server Error''"
    by simp
  from request_classification [OF rl tok this, of "''platforms''" platforms_query]
  have b: "fst (make_request (sample_env\<lparr>api_reply := Response 500 ''Server Error'' None\<rparr>)
          ''platforms'' platforms_query sample_client sample_world)
     = Inl (HTTPStatusError 500 ''Server Error'')"
    by simp
  have "failure_text (api_reply (sample_env\<lparr>api_reply := No_response ''timed out''\<rparr>))
          = Some ''timed out''"
    by simp
  from request_classification [OF rl tok this, of "''platforms''" platforms_query]
  have c: "fst (make_request (sample_env\<lparr>api_reply := No_response ''timed out''\<rparr>)
          ''platforms'' platforms_query sample_client sample_world)
     = Inl (RequestError ''timed out'')"
    by simp
  from a b c show ?thesis by simp
qed

text \<open>
  C3 (as stated): the starts of any two consecutive calls through the rate limiter on
  one client are at least \<^verbatim>\<open>request_interval\<close> apart. They need not be. The method
  awaits between reading and writing \<^verbatim>\<open>last_request_time\<close> and the client has no lock:
  of three calls on the sample client, the second and the third, which begins while
  the second sleeps, read the same value and both leave the limiter at 1700000000 + 2/7.
  And even when one call follows the other, the token request comes between the
  limiter and the entity request: with a token request of two seconds the two entity
  requests start at 1700000002 and 1700000002.1, a tenth of a second apart, while the
  values written to \<^verbatim>\<open>last_request_time\<close> are 2.1 seconds apart.
\<close>

theorem overlapping_calls_released_together:
  "released (run_loop overlapping_calls (loop_init sample_client sample_world))
     = [(0, 1700000000), (1, 1700000000 + 2 / 7), (2, 1700000000 + 2 / 7)]
   \<and> request_interval sample_client = 2 / 7
   \<and> \<not> (1700000000 + 2 / 7 :: real) + 2 / 7 \<le> 1700000000 + 2 / 7
   \<and> request_start slow_token_env sample_client sample_world = Some (1700000000 + 2)
   \<and> clock (snd (snd (get_platforms slow_token_env sample_client sample_world)))
       = 1700000000 + 2 + 1 / 10
   \<and> request_start slow_token_env
         (fst (snd (get_platforms slow_token_env sample_client sample_world)))
         (snd (snd (get_platforms slow_token_env sample_client sample_world)))
       = Some (1700000000 + 2 + 1 / 10)
   \<and> \<not> (1700000000 + 2 :: real) + 2 / 7 \<le> 1700000000 + 2 + 1 / 10"
proof -
  have loop: "released (run_loop overlapping_calls (loop_init sample_client sample_world))
     = [(0, 1700000000), (1, 1700000000 + 2 / 7), (2, 1700000000 + 2 / 7)]"
    by (simp add: overlapping_calls_def loop_init_def rate_limit_enter_def rate_limit_leave_def
          Let_def sample_client_def sample_world_def)
  have first: "request_start slow_token_env sample_client sample_world = Some (1700000000 + 2)"
    by (simp add: request_start_def rate_limit_def get_access_token_def cached_token_def
          token_exchange_def Let_def raise_for_status_def timedelta_seconds_def
          datetime_add_def datetime_min_def datetime_end_def http_post_def
          slow_token_env_def sample_env_def sample_client_def sample_world_def)
  have call: "snd (get_platforms slow_token_env sample_client sample_world)
     = (sample_client\<lparr>last_request_time := 1700000000, access_token := Some ''abc'',
                        token_expires_at := Some 1700003302\<rparr>,
        \<lparr>clock = 1700000000 + 2 + 1 / 10,
         events =
           [Post ''https://id.twitch.tv/oauth2/token''
              [(''client_id'', ''id''), (''client_secret'', ''secret''),
               (''grant_type'', ''client_credentials'')]
              [] [(''Accept'', ''application/json'')],
            Post ''https://api.igdb.com/v4/platforms'' [] platforms_query
              [(''Client-ID'', ''id''), (''Authorization'', ''Bearer abc''),
               (''Accept'', ''application/json''), (''Content-Type'', ''text/plain'')]]\<rparr>)"
    by (simp add: get_platforms_def make_request_def rate_limit_def get_access_token_def
          cached_token_def token_exchange_def Let_def raise_for_status_def
          timedelta_seconds_def datetime_add_def datetime_min_def datetime_end_def
          http_post_def request_headers_def slow_token_env_def sample_env_def
          sample_client_def sample_world_def)
  have second: "request_start slow_token_env
         (fst (snd (get_platforms slow_token_env sample_client sample_world)))
         (snd (snd (get_platforms slow_token_env sample_client sample_world)))
       = Some (1700000000 + 2 + 1 / 10)"
    unfolding call
    by (simp add: request_start_def rate_limit_def get_access_token_def cached_token_def
          Let_def slow_token_env_def sample_env_def sample_client_def)
  have interval: "request_interval sample_client = 2 / 7"
    by (simp add: sample_client_def)
  have returned: "clock (snd (snd (get_platforms slow_token_env sample_client sample_world)))
       = 1700000000 + 2 + 1 / 10"
    unfolding call by simp
  have together: "\<not> (1700000000 + 2 / 7 :: real) + 2 / 7 \<le> 1700000000 + 2 / 7"
    by simp
  have close: "\<not> (1700000000 + 2 :: real) + 2 / 7 \<le> 1700000000 + 2 + 1 / 10"
    by simp
  show ?thesis
    by (intro conjI loop interval together first returned second close)
qed

text \<open>
  C3 (amended): when the calls through the rate limiter on one client do not overlap
  (each begins while no other sleeps in the limiter) and no sleep ends early, the
  moments at which consecutive calls leave the limiter, which are the values they
  write to \<^verbatim>\<open>last_request_time\<close>, are at least \<^verbatim>\<open>request_interval\<close> apart, whatever time
  passes in between. A call sleeps for \<^verbatim>\<open>request_interval - elapsed\<close> exactly when
  \<^verbatim>\<open>elapsed < request_interval\<close>, then records the clock, and the constructor sets
  \<^verbatim>\<open>request_interval\<close> to \<^verbatim>\<open>1 / requests_per_second\<close>. Nothing is said of calls that
  overlap, nor of the starts of the requests that follow the limiter.
\<close>

theorem non_overlapping_calls_spaced:
  assumes "non_overlapping schedule (loop_init self w)"
    and "list_all never_early schedule"
    and "Suc i < length (released (run_loop schedule (loop_init self w)))"
  shows "snd (released (run_loop schedule (loop_init self w)) ! i) + request_interval self
           \<le> snd (released (run_loop schedule (loop_init self w)) ! Suc i)
       \<and> events (snd (rate_limit overrun self w)) = events w @ slot_events self w
       \<and> last_request_time (fst (rate_limit overrun self w))
           = clock (snd (rate_limit overrun self w))
       \<and> map_sum id request_interval (IGDBClient cid secret rps)
           = (if rps = 0 then Inl ZeroDivisionError else Inr (1 / rps))"
  using non_overlapping_spaced [OF assms] rate_limit_events rate_limit_recorded
  by (simp add: IGDBClient_def)

theorem non_overlapping_calls_spaced_witness:
  "non_overlapping separate_calls (loop_init sample_client sample_world)
   \<and> list_all never_early separate_calls
   \<and> released (run_loop separate_calls (loop_init sample_client sample_world))
       = [(0, 1700000000), (1, 1700000000 + 2 / 7), (2, 1700000000 + 4 / 7 + 1 / 100)]
   \<and> snd (released (run_loop separate_calls (loop_init sample_client sample_world)) ! 1)
         + request_interval sample_client
       \<le> snd (released (run_loop separate_calls (loop_init sample_client sample_world)) ! Suc 1)"
proof -
  have apart: "non_overlapping separate_calls (loop_init sample_client sample_world)"
    by (simp add: separate_calls_def loop_init_def rate_limit_enter_def rate_limit_leave_def
          Let_def sample_client_def sample_world_def)
  have late: "list_all never_early separate_calls"
    by (simp add: separate_calls_def)
  have left: "released (run_loop separate_calls (loop_init sample_client sample_world))
       = [(0, 1700000000), (1, 1700000000 + 2 / 7), (2, 1700000000 + 4 / 7 + 1 / 100)]"
    by (simp add: separate_calls_def loop_init_def rate_limit_enter_def rate_limit_leave_def
          Let_def sample_client_def sample_world_def)
  have "Suc 1 < length (released (run_loop separate_calls (loop_init sample_client sample_world)))"
    unfolding left by simp
  from non_overlapping_calls_spaced [OF apart late this, THEN conjunct1]
  show ?thesis
    using apart late left by simp
qed

text \<open>
  C4: when the client holds a token (a string that is not empty) and the clock is
  before its expiry, the method returns that token and leaves the client and the world
  as they are: no request is posted and no time passes.
\<close>

theorem cached_token_returned:
  assumes "access_token self = Some token" and "token \<noteq> []"
    and "token_expires_at self = Some expires_at" and "clock w < expires_at"
  shows "get_access_token env self w = (Inr token, self, w)"
  using assms by (simp add: get_access_token_def cached_token_def)

theorem cached_token_returned_witness:
  "get_access_token sample_env
     (sample_client\<lparr>access_token := Some ''abc'', token_expires_at := Some 1700003300\<rparr>)
     sample_world
   = (Inr ''abc'',
      sample_client\<lparr>access_token := Some ''abc'', token_expires_at := Some 1700003300\<rparr>,
      sample_world)"
  using cached_token_returned
    [of "sample_client\<lparr>access_token := Some ''abc'', token_expires_at := Some 1700003300\<rparr>"
        "''abc''" 1700003300 sample_world sample_env]
  by (simp add: sample_world_def)

text \<open>
  C5: when the client has no usable token and the token request gets no response or a
  response outside 2xx, the method raises \<^verbatim>\<open>IGDBAuthError\<close> whose message ends with the
  text of the \<^verbatim>\<open>httpx\<close> error, and the client is left exactly as it was, so neither
  \<^verbatim>\<open>access_token\<close> nor \<^verbatim>\<open>token_expires_at\<close> changes.
\<close>

theorem failed_exchange_is_auth_error:
  assumes "cached_token self (clock w) = None"
    and "failure_text (token_reply env) = Some text"
  shows "fst (get_access_token env self w) = Inl (IGDBAuthError (''Authentication failed: '' @ text))
       \<and> fst (snd (get_access_token env self w)) = self"
proof (cases "token_reply env")
  case (No_response t)
  then show ?thesis
    using assms by (simp add: get_access_token_def token_exchange_def Let_def)
next
  case (Response status t body)
  then show ?thesis
    using assms
    by (auto simp: get_access_token_def token_exchange_def Let_def raise_for_status_def
             split: if_splits)
qed

theorem failed_exchange_is_auth_error_witness:
  "fst (get_access_token (sample_env\<lparr>token_reply := Response 503 ''Service Unavailable'' Not_json\<rparr>)
          sample_client sample_world)
     = Inl (IGDBAuthError ''Authentication failed: Service Unavailable'')
   \<and> fst (snd (get_access_token
                 (sample_env\<lparr>token_reply := Response 503 ''Service Unavailable'' Not_json\<rparr>)
                 sample_client sample_world))
     = sample_client
   \<and> fst (get_access_token (sample_env\<lparr>token_reply := No_response ''timed out''\<rparr>)
          sample_client sample_world)
     = Inl (IGDBAuthError ''Authentication failed: timed out'')"
proof -
  have c: "cached_token sample_client (clock sample_world) = None"
    by (simp add: cached_token_def sample_client_def)
  have "failure_text (token_reply (sample_env\<lparr>token_reply := Response 503 ''Service Unavailable'' Not_json\<rparr>))
          = Some ''Service Unavailable''"
    by simp
  from failed_exchange_is_auth_error [OF c this]
  have a: "fst (get_access_token (sample_env\<lparr>token_reply := Response 503 ''Service Unavailable'' Not_json\<rparr>)
          sample_client sample_world)
     = Inl (IGDBAuthError ''Authentication failed: Service Unavailable'')
   \<and> fst (snd (get_access_token
                 (sample_env\<lparr>token_reply := Response 503 ''Service Unavailable'' Not_json\<rparr>)
                 sample_client sample_world))
     = sample_client"
    by simp
  have "failure_text (token_reply (sample_env\<lparr>token_reply := No_response ''timed out''\<rparr>))
          = Some ''timed out''"
    by simp
  from failed_exchange_is_auth_error [OF c this]
  have b: "fst (get_access_token (sample_env\<lparr>token_reply := No_response ''timed out''\<rparr>)
          sample_client sample_world)
     = Inl (IGDBAuthError ''Authentication failed: timed out'')"
    by simp
  from a b show ?thesis by simp
qed

text \<open>
  C10: on a client as the constructor returns it (\<^verbatim>\<open>last_request_time = 0.0\<close>) the first
  call of the rate limiter does not sleep, and only records the clock, exactly when the
  clock (seconds since the epoch) is at least the interval
  \<^verbatim>\<open>1 / requests_per_second\<close>; with the default of 3.5 requests per second that is any
  clock from 2/7 of a second after the epoch on.
\<close>

theorem first_call_does_not_sleep:
  assumes "IGDBClient cid secret rps = Inr self"
  shows "rate_limit overrun self w = (self\<lparr>last_request_time := clock w\<rparr>, w) \<longleftrightarrow> 1 / rps \<le> clock w"
proof -
  have self: "last_request_time self = 0" "request_interval self = 1 / rps"
    using assms by (auto simp: IGDBClient_def split: if_splits)
  show ?thesis
  proof
    assume same: "rate_limit overrun self w = (self\<lparr>last_request_time := clock w\<rparr>, w)"
    show "1 / rps \<le> clock w"
    proof (rule ccontr)
      assume "\<not> 1 / rps \<le> clock w"
      then have "slot_events self w = [Sleep (1 / rps - clock w)]"
        using self by (simp add: slot_events_def)
      then have "events (snd (rate_limit overrun self w)) = events w @ [Sleep (1 / rps - clock w)]"
        using rate_limit_events [of overrun self w] by simp
      then show False using same by simp
    qed
  next
    assume "1 / rps \<le> clock w"
    then show "rate_limit overrun self w = (self\<lparr>last_request_time := clock w\<rparr>, w)"
      using self by (simp add: rate_limit_def Let_def)
  qed
qed

theorem first_call_does_not_sleep_witness:
  "IGDBClient ''id'' ''secret'' (7 / 2) = Inr sample_client
   \<and> rate_limit 0 sample_client sample_world
       = (sample_client\<lparr>last_request_time := 1700000000\<rparr>, sample_world)
   \<and> events (snd (rate_limit 0 sample_client sample_world)) = []"
  using first_call_does_not_sleep [OF IGDBClient_sample, of 0 sample_world]
  by (simp add: IGDBClient_sample) (simp add: sample_world_def)

text \<open>
  C6 (the code at \<^verbatim>\<open>days_ahead=90, limit=50, platform_ids=[6,48]\<close>, clock at
  1700000000): the request carries the date window, the sort and the limit, but the
  platform restriction is a list element of its own, so the join puts a semicolon
  before its \<^verbatim>\<open>&\<close>: in the query it is a separate statement and not a part of the
  \<^verbatim>\<open>where\<close> statement.
\<close>

theorem platform_filter_detached:
  "events (snd (snd (get_upcoming_games sample_env 90 50 (Some [6, 48]) sample_client sample_world)))
     = [Post ''https://id.twitch.tv/oauth2/token''
          [(''client_id'', ''id''), (''client_secret'', ''secret''),
           (''grant_type'', ''client_credentials'')]
          [] [(''Accept'', ''application/json'')],
        Post ''https://api.igdb.com/v4/games'' []
          (upcoming_fields
             @ ''; where release_dates.date >= 1700000000 & release_dates.date < 1707776000''
             @ ''; & release_dates.platform = (6 | 48)''
             @ ''; sort release_dates.date asc; limit 50;'')
          [(''Client-ID'', ''id''), (''Authorization'', ''Bearer abc''),
           (''Accept'', ''application/json''), (''Content-Type'', ''text/plain'')]]
   \<and> statements (upcoming_query 1700000000 1707776000 50 (Some [6, 48]))
       = [upcoming_fields,
          '' where release_dates.date >= 1700000000 & release_dates.date < 1707776000'',
          '' & release_dates.platform = (6 | 48)'',
          '' sort release_dates.date asc'', '' limit 50'', '''']"
proof -
  have td: "timedelta_days 90 = Inr 7776000"
    by (simp add: timedelta_days_def)
  have dt: "datetime_add (clock sample_world) 7776000 = Inr 1707776000"
    by (simp add: datetime_add_def datetime_min_def datetime_end_def sample_world_def)
  have ts: "py_int (clock sample_world) = 1700000000" "py_int 1707776000 = 1707776000"
    by (simp_all add: py_int_def sample_world_def)
  have rl: "rate_limit (sleep_overrun sample_env) sample_client sample_world
              = (sample_client\<lparr>last_request_time := 1700000000\<rparr>, sample_world)"
    using sample_rate_limit by (simp add: sample_env_def)
  have tok: "get_access_token sample_env (sample_client\<lparr>last_request_time := 1700000000\<rparr>) sample_world
     = (Inr ''abc'',
        sample_client\<lparr>last_request_time := 1700000000, access_token := Some ''abc'',
                        token_expires_at := Some 1700003300\<rparr>,
        sample_world\<lparr>events :=
          [Post ''https://id.twitch.tv/oauth2/token''
             [(''client_id'', ''id''), (''client_secret'', ''secret''),
              (''grant_type'', ''client_credentials'')]
             [] [(''Accept'', ''application/json'')]]\<rparr>)"
    by (rule sample_token) (simp_all add: sample_env_def)
  have "events (snd (snd (get_upcoming_games sample_env 90 50 (Some [6, 48]) sample_client sample_world)))
          = events (snd (snd (make_request sample_env ''games''
                (upcoming_query 1700000000 1707776000 50 (Some [6, 48])) sample_client sample_world)))"
    by (simp add: get_upcoming_games_def Let_def td dt ts)
  also have "\<dots> = [Post ''https://id.twitch.tv/oauth2/token''
          [(''client_id'', ''id''), (''client_secret'', ''secret''),
           (''grant_type'', ''client_credentials'')]
          [] [(''Accept'', ''application/json'')],
        Post ''https://api.igdb.com/v4/games'' []
          (upcoming_query 1700000000 1707776000 50 (Some [6, 48]))
          [(''Client-ID'', ''id''), (''Authorization'', ''Bearer abc''),
           (''Accept'', ''application/json''), (''Content-Type'', ''text/plain'')]]"
    by (simp add: make_request_def rl tok Let_def http_post_def request_headers_def)
       (simp add: sample_client_def sample_world_def sample_env_def)
  finally have ev: "events (snd (snd (get_upcoming_games sample_env 90 50 (Some [6, 48]) sample_client sample_world)))
     = [Post ''https://id.twitch.tv/oauth2/token''
          [(''client_id'', ''id''), (''client_secret'', ''secret''),
           (''grant_type'', ''client_credentials'')]
          [] [(''Accept'', ''application/json'')],
        Post ''https://api.igdb.com/v4/games'' []
          (upcoming_query 1700000000 1707776000 50 (Some [6, 48]))
          [(''Client-ID'', ''id''), (''Authorization'', ''Bearer abc''),
           (''Accept'', ''application/json''), (''Content-Type'', ''text/plain'')]]" .
  have "CHR '';'' \<notin> set upcoming_fields"
    by (simp add: upcoming_fields_def)
  then have "statements (upcoming_fields @ rest)
               = (upcoming_fields @ hd (statements rest)) # tl (statements rest)" for rest
    unfolding statements_def by (rule split_on_prefix)
  then have st: "statements (upcoming_query 1700000000 1707776000 50 (Some [6, 48]))
       = [upcoming_fields,
          '' where release_dates.date >= 1700000000 & release_dates.date < 1707776000'',
          '' & release_dates.platform = (6 | 48)'',
          '' sort release_dates.date asc'', '' limit 50'', '''']"
    by (simp add: sample_upcoming_query) (simp add: statements_def)
  show ?thesis using ev st by (simp add: sample_upcoming_query)
qed

text \<open>
  C7: the route \<^verbatim>\<open>/api/games/search\<close>, given a batch by the client, answers with the
  entities of exactly those elements that parse, in the order of the batch, and counts
  them: the size of the batch less the number of elements that do not parse. No
  element makes the route fail. The loop, which the other routes share, appends them
  to the entities it started with. A batch of ten with one malformed element hence
  gives nine entities, as the sample batch shows.
\<close>

theorem malformed_entities_skipped:
  assumes "search_games env q limit self w = (Inr games_data, self', w')"
  shows "search_games_route parse env q limit self w
           = (Inr \<lparr>games = map (\<lambda>d. projr (parse d)) (filter (\<lambda>d. \<not> isl (parse d)) games_data),
                   total_count = Some (length games_data
                                         - length (filter (\<lambda>d. isl (parse d)) games_data)),
                   page = 1, per_page = limit\<rparr>, self', w')
       \<and> convert_entities parse games_data parsed
           = parsed @ map (\<lambda>d. projr (parse d)) (filter (\<lambda>d. \<not> isl (parse d)) games_data)"
  using assms
  by (simp add: search_games_route_def Let_def convert_entities_append length_filter_complement)

theorem malformed_entities_skipped_witness:
  "length sample_batch = 10
   \<and> length (filter (\<lambda>d. isl (sample_parse d)) sample_batch) = 1
   \<and> fst (search_games_route sample_parse sample_env ''zelda'' 20 sample_client sample_world)
       = Inr \<lparr>games = [(''1'', ''A''), (''2'', ''B''), (''3'', ''C''), (''5'', ''E''), (''6'', ''F''),
                       (''7'', ''G''), (''8'', ''H''), (''9'', ''I''), (''10'', ''J'')],
              total_count = Some 9, page = 1, per_page = 20\<rparr>"
proof -
  have rl: "rate_limit (sleep_overrun sample_env) sample_client sample_world
              = (sample_client\<lparr>last_request_time := 1700000000\<rparr>, sample_world)"
    using sample_rate_limit by (simp add: sample_env_def)
  have tok: "get_access_token sample_env (sample_client\<lparr>last_request_time := 1700000000\<rparr>) sample_world
     = (Inr ''abc'',
        sample_client\<lparr>last_request_time := 1700000000, access_token := Some ''abc'',
                        token_expires_at := Some 1700003300\<rparr>,
        sample_world\<lparr>events :=
          [Post ''https://id.twitch.tv/oauth2/token''
             [(''client_id'', ''id''), (''client_secret'', ''secret''),
              (''grant_type'', ''client_credentials'')]
             [] [(''Accept'', ''application/json'')]]\<rparr>)"
    by (rule sample_token) (simp_all add: sample_env_def)
  have out: "request_outcome (api_reply sample_env) = Inr sample_batch"
    by (simp add: request_outcome_def raise_for_status_def sample_env_def)
  obtain self' w' where
    found: "search_games sample_env ''zelda'' 20 sample_client sample_world = (Inr sample_batch, self', w')"
    by (simp add: search_games_def make_request_def rl tok out Let_def)
  have parsed: "map (\<lambda>d. projr (sample_parse d)) (filter (\<lambda>d. \<not> isl (sample_parse d)) sample_batch)
      = [(''1'', ''A''), (''2'', ''B''), (''3'', ''C''), (''5'', ''E''), (''6'', ''F''),
         (''7'', ''G''), (''8'', ''H''), (''9'', ''I''), (''10'', ''J'')]"
    by (simp add: sample_batch_def sample_parse_def)
  have bad: "length (filter (\<lambda>d. isl (sample_parse d)) sample_batch) = 1"
    by (simp add: sample_batch_def sample_parse_def)
  have len: "length sample_batch = 10"
    by (simp add: sample_batch_def)
  from malformed_entities_skipped [OF found, of sample_parse]
  show ?thesis
    by (simp add: parsed bad len)
qed

text \<open>
  C8: each of the three operations has these effects, in this order and no others:
  the sleep of the rate limiter (if it has to wait), then the token request (if the
  client has no usable token at the time after that wait), then, when a token was
  obtained, exactly one request to \<^verbatim>\<open>base_url/games\<close> or \<^verbatim>\<open>base_url/platforms\<close> with the
  query as content and the token in the header \<^verbatim>\<open>Authorization: Bearer\<close>; without a
  token no such request is made. The query is built from the arguments and, for the
  upcoming releases, from the clock at the start of the call.
\<close>

theorem operation_order:
  assumes rl: "rate_limit (sleep_overrun env) self w = (self1, w1)"
    and tok: "get_access_token env self1 w1 = (r, self2, w2)"
    and td: "timedelta_days days_ahead = Inr delta"
    and dt: "datetime_add (clock w) delta = Inr end_time"
  shows "events (snd (snd (get_upcoming_games env days_ahead limit platform_ids self w)))
           = events w @ slot_events self w @ token_events self1 w1
               @ query_events self ''games''
                   (upcoming_query (py_int (clock w)) (py_int end_time) limit platform_ids) r
       \<and> events (snd (snd (search_games env search_term limit self w)))
           = events w @ slot_events self w @ token_events self1 w1
               @ query_events self ''games'' (search_query search_term limit) r
       \<and> events (snd (snd (get_platforms env self w)))
           = events w @ slot_events self w @ token_events self1 w1
               @ query_events self ''platforms'' platforms_query r"
  using make_request_events [OF rl tok] td dt
  by (simp add: get_upcoming_games_def search_games_def get_platforms_def Let_def)

theorem operation_order_witness:
  "events (snd (snd (get_platforms sample_env sample_client sample_world)))
     = [Post ''https://id.twitch.tv/oauth2/token''
          [(''client_id'', ''id''), (''client_secret'', ''secret''),
           (''grant_type'', ''client_credentials'')]
          [] [(''Accept'', ''application/json'')],
        Post ''https://api.igdb.com/v4/platforms'' [] platforms_query
          [(''Client-ID'', ''id''), (''Authorization'', ''Bearer abc''),
           (''Accept'', ''application/json''), (''Content-Type'', ''text/plain'')]]
   \<and> events (snd (snd (search_games sample_env ''zelda'' 20 sample_client sample_world)))
     = [Post ''https://id.twitch.tv/oauth2/token''
          [(''client_id'', ''id''), (''client_secret'', ''secret''),
           (''grant_type'', ''client_credentials'')]
          [] [(''Accept'', ''application/json'')],
        Post ''https://api.igdb.com/v4/games'' [] (search_query ''zelda'' 20)
          [(''Client-ID'', ''id''), (''Authorization'', ''Bearer abc''),
           (''Accept'', ''application/json''), (''Content-Type'', ''text/plain'')]]"
proof -
  have td: "timedelta_days 90 = Inr 7776000"
    by (simp add: timedelta_days_def)
  have dt: "datetime_add (clock sample_world) 7776000 = Inr 1707776000"
    by (simp add: datetime_add_def datetime_min_def datetime_end_def sample_world_def)
  have rl: "rate_limit (sleep_overrun sample_env) sample_client sample_world
              = (sample_client\<lparr>last_request_time := 1700000000\<rparr>, sample_world)"
    using sample_rate_limit by (simp add: sample_env_def)
  have tok: "get_access_token sample_env (sample_client\<lparr>last_request_time := 1700000000\<rparr>) sample_world
     = (Inr ''abc'',
        sample_client\<lparr>last_request_time := 1700000000, access_token := Some ''abc'',
                        token_expires_at := Some 1700003300\<rparr>,
        sample_world\<lparr>events :=
          [Post ''https://id.twitch.tv/oauth2/token''
             [(''client_id'', ''id''), (''client_secret'', ''secret''),
              (''grant_type'', ''client_credentials'')]
             [] [(''Accept'', ''application/json'')]]\<rparr>)"
    by (rule sample_token) (simp_all add: sample_env_def)
  have slot: "slot_events sample_client sample_world = []"
    by (simp add: slot_events_def sample_client_def sample_world_def)
  have token: "token_events (sample_client\<lparr>last_request_time := 1700000000\<rparr>) sample_world
      = [Post ''https://id.twitch.tv/oauth2/token''
          [(''client_id'', ''id''), (''client_secret'', ''secret''),
           (''grant_type'', ''client_credentials'')]
          [] [(''Accept'', ''application/json'')]]"
    by (simp add: token_events_def cached_token_def sample_client_def)
  have query: "query_events sample_client endpoint query (Inr ''abc'')
      = [Post (''https://api.igdb.com/v4/'' @ endpoint) [] query
          [(''Client-ID'', ''id''), (''Authorization'', ''Bearer abc''),
           (''Accept'', ''application/json''), (''Content-Type'', ''text/plain'')]]"
    for endpoint query
    by (simp add: query_events_def sample_client_def)
  have start: "events sample_world = []"
    by (simp add: sample_world_def)
  from operation_order [OF rl tok td dt, where search_term = "''zelda''" and limit = 20]
  show ?thesis
    by (simp add: slot token query start)
qed

text \<open>
  C9: the search query is the search term put between two double quotes, as it is,
  followed by the field list and the limit. What the grammar reads as the quoted
  literal is the term up to its first double quote, which is the whole term only if
  the term has none; the rest of such a term stands outside the literal. The term
  \<^verbatim>\<open>a"; limit 500; search "b\<close> yields a query of five statements instead of three.
\<close>

theorem search_term_not_escaped:
  "search_query search_term limit
     = ''search '' @ [dq] @ search_term @ [dq]
         @ ''; fields name,summary,rating,first_release_date,cover.url,platforms.name; limit ''
         @ str_int limit @ '';''
   \<and> quoted_literal (search_query search_term limit) = takeWhile (\<lambda>c. c \<noteq> dq) search_term
   \<and> (quoted_literal (search_query search_term limit) = search_term) = (dq \<notin> set search_term)
   \<and> statements (search_query (''a'' @ [dq] @ ''; limit 500; search '' @ [dq] @ ''b'') 20)
       = [''search '' @ [dq] @ ''a'' @ [dq], '' limit 500'', '' search '' @ [dq] @ ''b'' @ [dq],
          '' fields name,summary,rating,first_release_date,cover.url,platforms.name'',
          '' limit 20'', '''']"
proof -
  have "(takeWhile (\<lambda>c. c \<noteq> dq) search_term = search_term) = (dq \<notin> set search_term)"
    by (auto simp: takeWhile_eq_all_conv)
  moreover have "statements (search_query (''a'' @ [dq] @ ''; limit 500; search '' @ [dq] @ ''b'') 20)
       = [''search '' @ [dq] @ ''a'' @ [dq], '' limit 500'', '' search '' @ [dq] @ ''b'' @ [dq],
          '' fields name,summary,rating,first_release_date,cover.url,platforms.name'',
          '' limit 20'', '''']"
    by (simp add: statements_def search_query_def sample_numbers dq_def)
  ultimately show ?thesis
    by (simp add: quoted_literal_search) (simp add: search_query_def)
qed

theorem search_term_not_escaped_witness:
  "quoted_literal (search_query (''a'' @ [dq] @ ''; limit 500; search '' @ [dq] @ ''b'') 20) = ''a''
   \<and> quoted_literal (search_query ''zelda'' 20) = ''zelda''"
  using search_term_not_escaped
      [of "''a'' @ [dq] @ ''; limit 500; search '' @ [dq] @ ''b''" 20, THEN conjunct2, THEN conjunct1]
    search_term_not_escaped [of "''zelda''" 20, THEN conjunct2, THEN conjunct1]
  by (simp add: dq_def)

end
